theory Spec2Isabelle
  imports Main
begin

section \<open>Data model of \<^verbatim>\<open>packages/core/src/core/contentGenerator.ts\<close>\<close>

text \<open>
  JavaScript strings are modelled as \<^typ>\<open>string\<close>; a value of type
  \<^verbatim>\<open>string | undefined\<close> (an optional field, an unset environment variable, an omitted
  argument) is a \<^typ>\<open>string option\<close>, \<^term>\<open>None\<close> being \<^verbatim>\<open>undefined\<close>.
\<close>

datatype AuthType = LOGIN_WITH_GOOGLE | USE_GEMINI | USE_VERTEX_AI | USE_OPENAI

text \<open>The string value of each member of the enum, as the template literal of the
  factory's error message prints it.\<close>

fun authType_value :: "AuthType \<Rightarrow> string" where
  "authType_value LOGIN_WITH_GOOGLE = ''oauth-personal''"
| "authType_value USE_GEMINI = ''gemini-api-key''"
| "authType_value USE_VERTEX_AI = ''vertex-ai''"
| "authType_value USE_OPENAI = ''openai''"

fun authType_string :: "AuthType option \<Rightarrow> string" where
  "authType_string None = ''undefined''"
| "authType_string (Some a) = authType_value a"

record ContentGeneratorConfig =
  model :: string
  apiKey :: "string option"
  vertexai :: "bool option"
  authType :: "AuthType option"

text \<open>The optional third argument \<^verbatim>\<open>config?: { getModel?: () => string }\<close>.\<close>

datatype ConfigArg = ConfigArg (getModel: "(unit \<Rightarrow> string) option")

text \<open>The part of \<^verbatim>\<open>process\<close> the module reads.\<close>

record ProcessEnv =
  GEMINI_API_KEY :: "string option"
  GOOGLE_API_KEY :: "string option"
  GOOGLE_CLOUD_PROJECT :: "string option"
  GOOGLE_CLOUD_LOCATION :: "string option"
  OPENAI_API_KEY :: "string option"
  CLI_VERSION :: "string option"

record Process =
  process_env :: ProcessEnv
  process_version :: string
  process_platform :: string
  process_arch :: string

datatype error = Error string | TypeError string

subsection \<open>Requests and responses\<close>

text \<open>
  A property of a JavaScript object is either not a key of the object (\<open>Missing\<close>: the
  \<^verbatim>\<open>in\<close> operator answers false), a key whose value is \<^verbatim>\<open>undefined\<close> or \<^verbatim>\<open>null\<close>
  (\<open>Nullish\<close>), or a key with a value of the declared type (\<open>Value\<close>; for \<^verbatim>\<open>parts\<close> an
  array, so that \<^verbatim>\<open>'parts' in c && Array.isArray(c.parts)\<close> holds exactly of \<open>Value xs\<close>).
\<close>

datatype 'a js_prop = Missing | Nullish | Value 'a

text \<open>A sub-part is a string or an object of which only the \<^verbatim>\<open>text\<close> property is read.\<close>

datatype PartUnion = PartString string | PartObject (part_text: "string js_prop")

text \<open>An element of a \<^verbatim>\<open>contents\<close> array: a string, or an object with the properties
  \<^verbatim>\<open>text\<close> and \<^verbatim>\<open>parts\<close>.\<close>

datatype ContentItem =
    ItemString string
  | ItemObject (item_text: "string js_prop") (item_parts: "PartUnion list js_prop")

text \<open>\<^verbatim>\<open>request.contents\<close>: a string, an array, or a single object.\<close>

datatype ContentListUnion =
    ContentsString string
  | ContentsArray "ContentItem list"
  | ContentsObject (contents_text: "string js_prop") (contents_parts: "PartUnion list js_prop")

text \<open>The parameters of a call: the model and the contents (the three parameter types of
  the SDK agree on these two fields).\<close>

record GenerateContentParameters =
  request_model :: string
  contents :: ContentListUnion

datatype TextPart = TextPart (text_of: "string option")
datatype Content = Content (parts_of: "TextPart list")
datatype Candidate = Candidate (content_of: Content)
datatype GenerateContentResponse = GenerateContentResponse (candidates: "Candidate list")

datatype CountTokensResponse = CountTokensResponse (totalTokens: "nat option")
typedecl ContentEmbedding
datatype EmbedContentResponse = EmbedContentResponse (embeddings: "ContentEmbedding list")

text \<open>The interface \<^verbatim>\<open>ContentGenerator\<close>: four asynchronous operations, a rejected
  promise being \<^term>\<open>Inl\<close> of the error and an asynchronous generator the list of what it
  yields.\<close>

type_synonym CountTokensParameters = GenerateContentParameters
type_synonym EmbedContentParameters = GenerateContentParameters

record ContentGenerator =
  generateContent :: "GenerateContentParameters \<Rightarrow> error + GenerateContentResponse"
  generateContentStream :: "GenerateContentParameters \<Rightarrow> error + GenerateContentResponse list"
  countTokens :: "CountTokensParameters \<Rightarrow> error + CountTokensResponse"
  embedContent :: "EmbedContentParameters \<Rightarrow> error + EmbedContentResponse"

subsection \<open>The chat-completion backend\<close>

record ChatMessage =
  role :: string
  content :: string

record ChatRequest =
  chat_model :: string
  messages :: "ChatMessage list"

text \<open>\<^verbatim>\<open>message.content\<close> of a choice is \<^verbatim>\<open>string | null\<close>.\<close>

datatype Choice = Choice (message_content: "string option")
datatype ChatCompletion = ChatCompletion (choices: "Choice list")

subsection \<open>Imported collaborators\<close>

text \<open>
  What the module imports and this repository's sources do not define here is a
  parameter of the model: the constant \<^verbatim>\<open>DEFAULT_GEMINI_MODEL\<close>, the function
  \<^verbatim>\<open>getEffectiveModel(apiKey, model)\<close>, \<^verbatim>\<open>createCodeAssistContentGenerator\<close>, the
  \<^verbatim>\<open>models\<close> object of a \<^verbatim>\<open>GoogleGenAI\<close> client and
  \<^verbatim>\<open>chat.completions.create\<close> of an \<^verbatim>\<open>OpenAI\<close> client built with a key. A key is
  passed to a collaborator as the field \<^verbatim>\<open>apiKey?: string\<close> holds it.
\<close>

record HttpOptions =
  headers :: "(string \<times> string) list"

record GoogleGenAIOptions =
  genai_apiKey :: "string option"
  genai_vertexai :: "bool option"
  genai_httpOptions :: HttpOptions

record Collaborators =
  DEFAULT_GEMINI_MODEL :: string
  getEffectiveModel :: "string option \<Rightarrow> string \<Rightarrow> string"
  createCodeAssistContentGenerator ::
    "HttpOptions \<Rightarrow> AuthType \<Rightarrow> string option \<Rightarrow> ContentGenerator"
  GoogleGenAI_models :: "GoogleGenAIOptions \<Rightarrow> ContentGenerator"
  OpenAI_chat_completions_create ::
    "string option \<Rightarrow> ChatRequest \<Rightarrow> error + ChatCompletion"

section \<open>JavaScript operators\<close>

text \<open>Truthiness of a \<^verbatim>\<open>string | undefined\<close>: defined and not the empty string.\<close>

fun truthy :: "string option \<Rightarrow> bool" where
  "truthy None = False"
| "truthy (Some s) = (s \<noteq> [])"

text \<open>\<^verbatim>\<open>a || b\<close>: the left operand when it is truthy, else the right one.\<close>

definition lor :: "string option \<Rightarrow> string option \<Rightarrow> string option" where
  "lor a b = (if truthy a then a else b)"

text \<open>\<^verbatim>\<open>a || b\<close> with a right operand that is a string.\<close>

fun lor_string :: "string option \<Rightarrow> string \<Rightarrow> string" where
  "lor_string None b = b"
| "lor_string (Some s) b = (if s \<noteq> [] then s else b)"

text \<open>\<^verbatim>\<open>'k' in obj\<close>.\<close>

fun has_key :: "'a js_prop \<Rightarrow> bool" where
  "has_key Missing = False"
| "has_key Nullish = True"
| "has_key (Value v) = True"

text \<open>\<^verbatim>\<open>obj.k ?? d\<close>: a missing key reads as \<^verbatim>\<open>undefined\<close>.\<close>

fun nullish_coalesce :: "'a js_prop \<Rightarrow> 'a \<Rightarrow> 'a" where
  "nullish_coalesce (Value v) d = v"
| "nullish_coalesce Nullish d = d"
| "nullish_coalesce Missing d = d"

text \<open>\<^verbatim>\<open>Array.prototype.join\<close> on an array of strings: the result starts empty, and every
  element but the first is preceded by the separator.\<close>

fun join_loop :: "string \<Rightarrow> string \<Rightarrow> nat \<Rightarrow> string list \<Rightarrow> string" where
  "join_loop sep R k [] = R"
| "join_loop sep R k (x # xs) = join_loop sep ((if 0 < k then R @ sep else R) @ x) (Suc k) xs"

definition join :: "string list \<Rightarrow> string \<Rightarrow> string" where
  "join xs sep = join_loop sep [] 0 xs"

definition newline :: string where
  "newline = [CHR 0x0A]"

section \<open>\<^verbatim>\<open>createContentGeneratorConfig\<close>\<close>

text \<open>\<^verbatim>\<open>config?.getModel?.()\<close>.\<close>

fun call_getModel :: "ConfigArg option \<Rightarrow> string option" where
  "call_getModel None = None"
| "call_getModel (Some (ConfigArg None)) = None"
| "call_getModel (Some (ConfigArg (Some f))) = Some (f ())"

text \<open>\<^verbatim>\<open>config?.getModel?.() || model || DEFAULT_GEMINI_MODEL\<close>.\<close>

definition effectiveModel ::
  "Collaborators \<Rightarrow> string option \<Rightarrow> ConfigArg option \<Rightarrow> string" where
  "effectiveModel X model_arg config =
     lor_string (lor (call_getModel config) model_arg) (DEFAULT_GEMINI_MODEL X)"

text \<open>
  The function returns the configuration together with the calls it made to
  \<^verbatim>\<open>getEffectiveModel\<close>, each as the pair of its arguments, in order.
\<close>

definition createContentGeneratorConfig ::
  "Collaborators \<Rightarrow> Process \<Rightarrow> string option \<Rightarrow> AuthType option \<Rightarrow> ConfigArg option
     \<Rightarrow> ContentGeneratorConfig \<times> (string option \<times> string) list" where
  "createContentGeneratorConfig X proc model_arg authType_arg config =
     (let geminiApiKey = GEMINI_API_KEY (process_env proc);
          googleApiKey = GOOGLE_API_KEY (process_env proc);
          googleCloudProject = GOOGLE_CLOUD_PROJECT (process_env proc);
          googleCloudLocation = GOOGLE_CLOUD_LOCATION (process_env proc);
          openaiApiKey = OPENAI_API_KEY (process_env proc);
          contentGeneratorConfig =
            \<lparr>model = effectiveModel X model_arg config, apiKey = None, vertexai = None,
             authType = authType_arg\<rparr>
      in if authType_arg = Some LOGIN_WITH_GOOGLE then (contentGeneratorConfig, [])
         else if authType_arg = Some USE_GEMINI \<and> truthy geminiApiKey then
           (let c1 = contentGeneratorConfig\<lparr>apiKey := geminiApiKey\<rparr>;
                c2 = c1\<lparr>model := getEffectiveModel X (apiKey c1) (model c1)\<rparr>
            in (c2, [(apiKey c1, model c1)]))
         else if authType_arg = Some USE_VERTEX_AI \<and> truthy googleApiKey
                 \<and> truthy googleCloudProject \<and> truthy googleCloudLocation then
           (let c1 = contentGeneratorConfig\<lparr>apiKey := googleApiKey\<rparr>;
                c2 = c1\<lparr>vertexai := Some True\<rparr>;
                c3 = c2\<lparr>model := getEffectiveModel X (apiKey c2) (model c2)\<rparr>
            in (c3, [(apiKey c2, model c2)]))
         else if authType_arg = Some USE_OPENAI \<and> truthy openaiApiKey then
           (contentGeneratorConfig\<lparr>apiKey := openaiApiKey\<rparr>, [])
         else (contentGeneratorConfig, []))"

section \<open>\<^verbatim>\<open>createContentGenerator\<close>\<close>

text \<open>The prompt that \<^verbatim>\<open>generateContent\<close> of the OpenAI wrapper extracts from
  \<^verbatim>\<open>request.contents\<close>: the callback of the inner \<^verbatim>\<open>map\<close>, the callback of the outer
  \<^verbatim>\<open>map\<close>, and the chain of tests on \<^verbatim>\<open>request.contents\<close> itself, \<^verbatim>\<open>prompt\<close> starting
  as the empty string.\<close>

definition part_prompt :: "PartUnion \<Rightarrow> string" where
  "part_prompt p =
     (case p of PartString s \<Rightarrow> s | PartObject t \<Rightarrow> nullish_coalesce t [])"

definition item_prompt :: "ContentItem \<Rightarrow> string" where
  "item_prompt c =
     (case c of
        ItemString s \<Rightarrow> s
      | ItemObject t ps \<Rightarrow>
          if has_key t then nullish_coalesce t []
          else (case ps of
                  Value xs \<Rightarrow> join (map part_prompt xs) newline
                | Nullish \<Rightarrow> []
                | Missing \<Rightarrow> []))"

definition request_prompt :: "ContentListUnion \<Rightarrow> string" where
  "request_prompt cs =
     (case cs of
        ContentsString s \<Rightarrow> s
      | ContentsArray items \<Rightarrow> join (map item_prompt items) newline
      | ContentsObject t ps \<Rightarrow> if has_key t then nullish_coalesce t [] else [])"

text \<open>The argument of \<^verbatim>\<open>openai.chat.completions.create\<close>.\<close>

definition openai_request :: "ContentGeneratorConfig \<Rightarrow> GenerateContentParameters \<Rightarrow> ChatRequest" where
  "openai_request config request =
     \<lparr>chat_model = lor_string (Some (model config)) ''o4-mini'',
      messages = [\<lparr>role = ''user'', content = request_prompt (contents request)\<rparr>]\<rparr>"

text \<open>The object returned after the call: \<^verbatim>\<open>completion.choices[0]\<close> of an empty array is
  \<^verbatim>\<open>undefined\<close>, and reading \<^verbatim>\<open>message\<close> from it throws a \<^verbatim>\<open>TypeError\<close>.\<close>

definition gemini_like_response :: "ChatCompletion \<Rightarrow> error + GenerateContentResponse" where
  "gemini_like_response completion =
     (case choices completion of
        [] \<Rightarrow> Inl (TypeError ''Cannot read properties of undefined (reading 'message')'')
      | c # rest \<Rightarrow>
          Inr (GenerateContentResponse [Candidate (Content [TextPart (message_content c)])]))"

text \<open>The wrapper object; an error of the awaited backend call rejects
  \<^verbatim>\<open>generateContent\<close> unchanged.\<close>

definition openai_wrapper :: "Collaborators \<Rightarrow> ContentGeneratorConfig \<Rightarrow> ContentGenerator" where
  "openai_wrapper X config =
     \<lparr>generateContent = (\<lambda>request.
        case OpenAI_chat_completions_create X (apiKey config) (openai_request config request) of
          Inl e \<Rightarrow> Inl e
        | Inr completion \<Rightarrow> gemini_like_response completion),
      generateContentStream = (\<lambda>request. Inl (Error ''OpenAI streaming not implemented'')),
      countTokens = (\<lambda>request. Inl (Error ''OpenAI token counting not implemented'')),
      embedContent = (\<lambda>request. Inl (Error ''OpenAI embedding not implemented''))\<rparr>"

text \<open>The \<^verbatim>\<open>User-Agent\<close> header, with \<^verbatim>\<open>process.env.CLI_VERSION || process.version\<close>.\<close>

definition user_agent :: "Process \<Rightarrow> string" where
  "user_agent proc =
     (let version = lor_string (CLI_VERSION (process_env proc)) (process_version proc)
      in ''GeminiCLI/'' @ version @ '' ('' @ process_platform proc @ ''; ''
           @ process_arch proc @ '')'')"

text \<open>
  The factory: the first branch passes \<^verbatim>\<open>config.authType\<close>, which its test has just found
  to be \<^term>\<open>LOGIN_WITH_GOOGLE\<close>; the last statement is the \<^verbatim>\<open>throw\<close>. The constructors
  of the two SDK clients and the code-assist factory are taken to return.
\<close>

definition createContentGenerator ::
  "Collaborators \<Rightarrow> Process \<Rightarrow> ContentGeneratorConfig \<Rightarrow> string option
     \<Rightarrow> error + ContentGenerator" where
  "createContentGenerator X proc config sessionId =
     (let httpOptions = \<lparr>headers = [(''User-Agent'', user_agent proc)]\<rparr>
      in if authType config = Some LOGIN_WITH_GOOGLE then
           Inr (createCodeAssistContentGenerator X httpOptions LOGIN_WITH_GOOGLE sessionId)
         else if authType config = Some USE_GEMINI \<or> authType config = Some USE_VERTEX_AI then
           Inr (GoogleGenAI_models X
                  \<lparr>genai_apiKey = (if apiKey config = Some [] then None else apiKey config),
                   genai_vertexai = vertexai config,
                   genai_httpOptions = httpOptions\<rparr>)
         else if authType config = Some USE_OPENAI \<and> truthy (apiKey config) then
           Inr (openai_wrapper X config)
         else Inl (Error (''Error creating contentGenerator: Unsupported authType: ''
                            @ authType_string (authType config))))"

section \<open>The specification's wording\<close>

text \<open>
  The precedence of section 4.1, "highest first": the first source that is present, a source
  being absent when it is \<^verbatim>\<open>undefined\<close> or the empty string, and the default when none is.
\<close>

fun first_present :: "string option list \<Rightarrow> string \<Rightarrow> string" where
  "first_present [] d = d"
| "first_present (None # rest) d = first_present rest d"
| "first_present (Some s # rest) d = (if s = [] then first_present rest d else s)"

text \<open>
  The flattening of section 4.3, by its precedence per content item: "plain string used
  as-is; an object exposing a direct text field uses that field (empty string if absent); an
  object exposing an ordered list of sub-parts joins each sub-part's text (again via
  direct-string-or-text-field) with newlines; any other shape contributes an empty string",
  and "a single non-list content value is handled via direct-string-or-text-field".
\<close>

fun newline_joined :: "string list \<Rightarrow> string" where
  "newline_joined [] = []"
| "newline_joined [x] = x"
| "newline_joined (x # y # ys) = x @ newline @ newline_joined (y # ys)"

fun string_or_text_field :: "PartUnion \<Rightarrow> string" where
  "string_or_text_field (PartString s) = s"
| "string_or_text_field (PartObject (Value t)) = t"
| "string_or_text_field (PartObject Nullish) = []"
| "string_or_text_field (PartObject Missing) = []"

fun item_flattened :: "ContentItem \<Rightarrow> string" where
  "item_flattened (ItemString s) = s"
| "item_flattened (ItemObject (Value t) ps) = t"
| "item_flattened (ItemObject Nullish ps) = []"
| "item_flattened (ItemObject Missing (Value xs)) = newline_joined (map string_or_text_field xs)"
| "item_flattened (ItemObject Missing Nullish) = []"
| "item_flattened (ItemObject Missing Missing) = []"

fun flattened :: "ContentListUnion \<Rightarrow> string" where
  "flattened (ContentsString s) = s"
| "flattened (ContentsArray items) = newline_joined (map item_flattened items)"
| "flattened (ContentsObject (Value t) ps) = t"
| "flattened (ContentsObject Nullish ps) = []"
| "flattened (ContentsObject Missing ps) = []"

text \<open>
  Modelled from the spec: the Effective Model Resolver, \<^verbatim>\<open>getEffectiveModel\<close> of
  \<^verbatim>\<open>./modelCheck.js\<close>, which is imported and is not among the sources. Section 2: "given an
  API key and a requested model name, returns the model string actually usable (may probe
  availability)"; section 4.1: "the resolver may determine the requested model is unavailable
  and substitute another". The outcome of the probe and the model substituted are parameters.
  A model that is substituted is a usable model identifier, so not the empty string: it is
  given by its first character and the rest.
\<close>

datatype ModelId = ModelId char string

fun model_string :: "ModelId \<Rightarrow> string" where
  "model_string (ModelId c cs) = c # cs"

definition effective_model_resolver ::
  "(string option \<Rightarrow> string \<Rightarrow> bool) \<Rightarrow> (string option \<Rightarrow> string \<Rightarrow> ModelId)
     \<Rightarrow> string option \<Rightarrow> string \<Rightarrow> string" where
  "effective_model_resolver available substitute key requested =
     (if available key requested then requested else model_string (substitute key requested))"

section \<open>Concrete collaborators and processes\<close>

text \<open>A generator standing for the two SDK objects: what it answers plays no part below.\<close>

definition sdk_generator :: ContentGenerator where
  "sdk_generator =
     \<lparr>generateContent = (\<lambda>request. Inr (GenerateContentResponse [])),
      generateContentStream = (\<lambda>request. Inr []),
      countTokens = (\<lambda>request. Inr (CountTokensResponse (Some 0))),
      embedContent = (\<lambda>request. Inr (EmbedContentResponse []))\<rparr>"

text \<open>Collaborators whose model check keeps the model it is given and whose chat backend
  answers \<^verbatim>\<open>hello\<close>.\<close>

definition hello_collaborators :: Collaborators where
  "hello_collaborators =
     \<lparr>DEFAULT_GEMINI_MODEL = ''gemini-2.5-pro'',
      getEffectiveModel = (\<lambda>key m. m),
      createCodeAssistContentGenerator = (\<lambda>httpOptions a sessionId. sdk_generator),
      GoogleGenAI_models = (\<lambda>options. sdk_generator),
      OpenAI_chat_completions_create =
        (\<lambda>key request. Inr (ChatCompletion [Choice (Some ''hello'')]))\<rparr>"

text \<open>The same with a chat backend that answers a completion without any choice.\<close>

definition no_choice_collaborators :: Collaborators where
  "no_choice_collaborators =
     hello_collaborators
       \<lparr>OpenAI_chat_completions_create := (\<lambda>key request. Inr (ChatCompletion []))\<rparr>"

text \<open>A process with every credential set.\<close>

definition full_process :: Process where
  "full_process =
     \<lparr>process_env =
        \<lparr>GEMINI_API_KEY = Some ''gemini-key'', GOOGLE_API_KEY = Some ''google-key'',
         GOOGLE_CLOUD_PROJECT = Some ''project'', GOOGLE_CLOUD_LOCATION = Some ''us-central1'',
         OPENAI_API_KEY = Some ''openai-key'', CLI_VERSION = None\<rparr>,
      process_version = ''v20.11.0'', process_platform = ''linux'', process_arch = ''x64''\<rparr>"

text \<open>The process of the repository's Dockerfile, which sets \<^verbatim>\<open>OPENAI_API_KEY=""\<close> and
  no other credential.\<close>

definition docker_process :: Process where
  "docker_process =
     \<lparr>process_env =
        \<lparr>GEMINI_API_KEY = None, GOOGLE_API_KEY = None,
         GOOGLE_CLOUD_PROJECT = None, GOOGLE_CLOUD_LOCATION = None,
         OPENAI_API_KEY = Some [], CLI_VERSION = None\<rparr>,
      process_version = ''v20.11.0'', process_platform = ''linux'', process_arch = ''x64''\<rparr>"

definition hello_request :: GenerateContentParameters where
  "hello_request = \<lparr>request_model = ''o4-mini'', contents = ContentsString ''hi''\<rparr>"

section \<open>The credential resolver\<close>

subsection \<open>The effective model\<close>

lemma lor_string_first_present: "lor_string (lor a b) d = first_present [a, b] d"
  by (cases a; cases b) (auto simp: lor_def)

lemma effectiveModel_nonempty:
  "DEFAULT_GEMINI_MODEL X \<noteq> [] \<Longrightarrow> effectiveModel X model_arg config \<noteq> []"
  by (cases "call_getModel config"; cases model_arg) (auto simp: effectiveModel_def lor_def)

text \<open>
  Claim C9. For every override, \<^verbatim>\<open>model\<close> argument and default constant, the effective
  model that \<^verbatim>\<open>createContentGeneratorConfig\<close> computes is the first present one of the
  override function's result and the \<^verbatim>\<open>model\<close> argument, in this order, and the constant
  \<^verbatim>\<open>DEFAULT_GEMINI_MODEL\<close> when neither is present; a source is absent when it is not given
  or is the empty string, which the operator \<^verbatim>\<open>||\<close> does not tell apart. That
  value is the \<^verbatim>\<open>model\<close> of the returned configuration when no call to
  \<^verbatim>\<open>getEffectiveModel\<close> is made, and otherwise the model passed to the one call whose result
  becomes the \<^verbatim>\<open>model\<close>.
\<close>

theorem effective_model_precedence:
  "effectiveModel X model_arg config =
     first_present [call_getModel config, model_arg] (DEFAULT_GEMINI_MODEL X)
   \<and> (let r = createContentGeneratorConfig X proc model_arg authType_arg config
      in snd r = [] \<and> model (fst r) = effectiveModel X model_arg config
         \<or> snd r = [(apiKey (fst r), effectiveModel X model_arg config)]
           \<and> model (fst r) =
               getEffectiveModel X (apiKey (fst r)) (effectiveModel X model_arg config))"
  by (simp add: effectiveModel_def lor_string_first_present createContentGeneratorConfig_def
      Let_def)

theorem effective_model_precedence_witness:
  "effectiveModel hello_collaborators (Some ''requested'')
       (Some (ConfigArg (Some (\<lambda>u. ''override'')))) = ''override''
   \<and> effectiveModel hello_collaborators (Some ''requested'')
       (Some (ConfigArg (Some (\<lambda>u. [])))) = ''requested''
   \<and> effectiveModel hello_collaborators (Some ''requested'') (Some (ConfigArg None))
       = ''requested''
   \<and> effectiveModel hello_collaborators (Some ''requested'') None = ''requested''
   \<and> effectiveModel hello_collaborators (Some []) None = ''gemini-2.5-pro''
   \<and> effectiveModel hello_collaborators None None = ''gemini-2.5-pro''"
  using
    effective_model_precedence [of hello_collaborators "Some ''requested''"
      "Some (ConfigArg (Some (\<lambda>u. ''override'')))" full_process None]
    effective_model_precedence [of hello_collaborators "Some ''requested''"
      "Some (ConfigArg (Some (\<lambda>u. [])))" full_process None]
    effective_model_precedence [of hello_collaborators "Some ''requested''"
      "Some (ConfigArg None)" full_process None]
    effective_model_precedence [of hello_collaborators "Some ''requested''" None full_process None]
    effective_model_precedence [of hello_collaborators "Some []" None full_process None]
    effective_model_precedence [of hello_collaborators None None full_process None]
  by (simp add: hello_collaborators_def)

text \<open>
  Whatever \<^verbatim>\<open>getEffectiveModel\<close> is, the \<^verbatim>\<open>model\<close> of the returned configuration is not
  empty as soon as the default constant is not and the model check answers no empty string
  for a non-empty model; with \<^term>\<open>USE_OPENAI\<close> the model check is not called at all.
\<close>

lemma model_nonempty_if_resolver_nonempty:
  assumes "DEFAULT_GEMINI_MODEL X \<noteq> []"
    and "(\<forall>key m. m \<noteq> [] \<longrightarrow> getEffectiveModel X key m \<noteq> []) \<or> a = Some USE_OPENAI"
  shows "model (fst (createContentGeneratorConfig X proc model_arg a config)) \<noteq> []"
  using assms effectiveModel_nonempty [OF assms(1), of model_arg config]
  by (auto simp: createContentGeneratorConfig_def Let_def)

lemma effective_model_resolver_nonempty:
  "requested \<noteq> [] \<Longrightarrow> effective_model_resolver available substitute key requested \<noteq> []"
  by (cases "substitute key requested") (simp add: effective_model_resolver_def)

text \<open>
  Claim C10. With the Effective Model Resolver as the specification describes it (it answers
  the requested model, or a usable model it substitutes, whatever its probe finds), and
  provided the default constant is a non-empty string, every configuration that
  \<^verbatim>\<open>createContentGeneratorConfig\<close> returns has a non-empty \<^verbatim>\<open>model\<close>, for every \<^verbatim>\<open>model\<close>
  argument, \<^verbatim>\<open>authType\<close>, override and process state. Consequently the OpenAI wrapper sends
  such a configuration's own \<^verbatim>\<open>model\<close>: the fallback of \<^verbatim>\<open>config.model || 'o4-mini'\<close> is
  never selected.
\<close>

theorem resolved_model_nonempty:
  assumes "DEFAULT_GEMINI_MODEL X \<noteq> []"
  shows "model (fst (createContentGeneratorConfig
                       (X\<lparr>getEffectiveModel := effective_model_resolver available substitute\<rparr>)
                       proc model_arg a config)) \<noteq> []
    \<and> chat_model (openai_request
         (fst (createContentGeneratorConfig
                 (X\<lparr>getEffectiveModel := effective_model_resolver available substitute\<rparr>)
                 proc model_arg a config)) request)
        = model (fst (createContentGeneratorConfig
                        (X\<lparr>getEffectiveModel := effective_model_resolver available substitute\<rparr>)
                        proc model_arg a config))"
proof -
  let ?X = "X\<lparr>getEffectiveModel := effective_model_resolver available substitute\<rparr>"
  have d: "DEFAULT_GEMINI_MODEL ?X \<noteq> []"
    using assms by simp
  have g: "(\<forall>key m. m \<noteq> [] \<longrightarrow> getEffectiveModel ?X key m \<noteq> []) \<or> a = Some USE_OPENAI"
    by (simp add: effective_model_resolver_nonempty)
  have "model (fst (createContentGeneratorConfig ?X proc model_arg a config)) \<noteq> []"
    by (rule model_nonempty_if_resolver_nonempty [OF d g])
  then show ?thesis by (simp add: openai_request_def)
qed

text \<open>The requested model is unavailable and another is substituted; no model is requested
  and the default, found available, is kept.\<close>

theorem resolved_model_nonempty_witness:
  "model (fst (createContentGeneratorConfig
                 (hello_collaborators\<lparr>getEffectiveModel :=
                    effective_model_resolver (\<lambda>key m. False)
                      (\<lambda>key m. ModelId CHR ''g'' ''emini-2.5-flash'')\<rparr>)
                 full_process (Some ''gemini-2.5-pro'') (Some USE_GEMINI) None))
     = ''gemini-2.5-flash''
   \<and> chat_model (openai_request
        (fst (createContentGeneratorConfig
                (hello_collaborators\<lparr>getEffectiveModel :=
                   effective_model_resolver (\<lambda>key m. True)
                     (\<lambda>key m. ModelId CHR ''g'' ''emini-2.5-flash'')\<rparr>)
                full_process None (Some USE_VERTEX_AI) None)) hello_request)
     = ''gemini-2.5-pro''"
proof -
  have d: "DEFAULT_GEMINI_MODEL hello_collaborators \<noteq> []"
    by (simp add: hello_collaborators_def)
  have m1: "model (fst (createContentGeneratorConfig
                 (hello_collaborators\<lparr>getEffectiveModel :=
                    effective_model_resolver (\<lambda>key m. False)
                      (\<lambda>key m. ModelId CHR ''g'' ''emini-2.5-flash'')\<rparr>)
                 full_process (Some ''gemini-2.5-pro'') (Some USE_GEMINI) None))
     = ''gemini-2.5-flash''"
    by (simp add: createContentGeneratorConfig_def full_process_def effective_model_resolver_def
        Let_def)
  have m2: "model (fst (createContentGeneratorConfig
                (hello_collaborators\<lparr>getEffectiveModel :=
                   effective_model_resolver (\<lambda>key m. True)
                     (\<lambda>key m. ModelId CHR ''g'' ''emini-2.5-flash'')\<rparr>)
                full_process None (Some USE_VERTEX_AI) None))
     = ''gemini-2.5-pro''"
    by (simp add: createContentGeneratorConfig_def full_process_def hello_collaborators_def
        effective_model_resolver_def effectiveModel_def lor_def Let_def)
  show ?thesis
    using
      resolved_model_nonempty [OF d, of "\<lambda>key m. True"
        "\<lambda>key m. ModelId CHR ''g'' ''emini-2.5-flash''" full_process None "Some USE_VERTEX_AI"
        None hello_request]
      m1 m2
    by simp
qed

subsection \<open>The branches by \<^verbatim>\<open>authType\<close>\<close>

text \<open>
  Claim C6. With the identity-login mode (\<^term>\<open>LOGIN_WITH_GOOGLE\<close>), for every collaborator,
  process state, \<^verbatim>\<open>model\<close> argument and override, \<^verbatim>\<open>createContentGeneratorConfig\<close> returns
  the configuration that has only \<^verbatim>\<open>model\<close> (the effective model computed first) and
  \<^verbatim>\<open>authType\<close> set, with neither \<^verbatim>\<open>apiKey\<close> nor \<^verbatim>\<open>vertexai\<close>, and it makes no call to
  \<^verbatim>\<open>getEffectiveModel\<close>.
\<close>

theorem login_with_google_returns_immediately:
  "createContentGeneratorConfig X proc model_arg (Some LOGIN_WITH_GOOGLE) config =
     (\<lparr>model = effectiveModel X model_arg config, apiKey = None, vertexai = None,
       authType = Some LOGIN_WITH_GOOGLE\<rparr>, [])"
  by (simp add: createContentGeneratorConfig_def)

text \<open>
  Claim C7. With the cloud-hosted mode (\<^term>\<open>USE_VERTEX_AI\<close>), for every process state the
  cloud settings are applied exactly when \<^verbatim>\<open>GOOGLE_API_KEY\<close>, \<^verbatim>\<open>GOOGLE_CLOUD_PROJECT\<close> and
  \<^verbatim>\<open>GOOGLE_CLOUD_LOCATION\<close> are all three present (set and not empty): then \<^verbatim>\<open>apiKey\<close> is
  the cloud key, \<^verbatim>\<open>vertexai\<close> is true and the \<^verbatim>\<open>model\<close> is the answer of the one call to
  \<^verbatim>\<open>getEffectiveModel\<close>. When any of the three is missing the result is the configuration
  constructed first, with \<^verbatim>\<open>model\<close> and \<^verbatim>\<open>authType\<close> only: no key, no \<^verbatim>\<open>vertexai\<close>, the model
  not resolved again and no call made.
\<close>

theorem vertex_ai_all_or_nothing:
  "createContentGeneratorConfig X proc model_arg (Some USE_VERTEX_AI) config =
     (if truthy (GOOGLE_API_KEY (process_env proc))
         \<and> truthy (GOOGLE_CLOUD_PROJECT (process_env proc))
         \<and> truthy (GOOGLE_CLOUD_LOCATION (process_env proc))
      then (\<lparr>model = getEffectiveModel X (GOOGLE_API_KEY (process_env proc))
                       (effectiveModel X model_arg config),
             apiKey = GOOGLE_API_KEY (process_env proc), vertexai = Some True,
             authType = Some USE_VERTEX_AI\<rparr>,
            [(GOOGLE_API_KEY (process_env proc), effectiveModel X model_arg config)])
      else (\<lparr>model = effectiveModel X model_arg config, apiKey = None, vertexai = None,
             authType = Some USE_VERTEX_AI\<rparr>, []))"
  by (simp add: createContentGeneratorConfig_def Let_def)

theorem vertex_ai_all_or_nothing_witness:
  "createContentGeneratorConfig hello_collaborators full_process (Some ''gemini-2.5-flash'')
       (Some USE_VERTEX_AI) None =
     (\<lparr>model = ''gemini-2.5-flash'', apiKey = Some ''google-key'', vertexai = Some True,
       authType = Some USE_VERTEX_AI\<rparr>, [(Some ''google-key'', ''gemini-2.5-flash'')])
   \<and> createContentGeneratorConfig hello_collaborators
       (full_process\<lparr>process_env := (process_env full_process)
          \<lparr>GOOGLE_CLOUD_LOCATION := None\<rparr>\<rparr>)
       (Some ''gemini-2.5-flash'') (Some USE_VERTEX_AI) None =
     (\<lparr>model = ''gemini-2.5-flash'', apiKey = None, vertexai = None,
       authType = Some USE_VERTEX_AI\<rparr>, [])"
  using
    vertex_ai_all_or_nothing [of hello_collaborators full_process "Some ''gemini-2.5-flash''" None]
    vertex_ai_all_or_nothing [of hello_collaborators
      "full_process\<lparr>process_env := (process_env full_process)
         \<lparr>GOOGLE_CLOUD_LOCATION := None\<rparr>\<rparr>" "Some ''gemini-2.5-flash''" None]
  by (simp add: full_process_def hello_collaborators_def effectiveModel_def lor_def)

text \<open>
  Claim C8. With the chat-completion mode (\<^term>\<open>USE_OPENAI\<close>) and a key present in
  \<^verbatim>\<open>OPENAI_API_KEY\<close> (set and not empty), for every collaborator, \<^verbatim>\<open>model\<close> argument and
  override, the returned configuration has that key as its \<^verbatim>\<open>apiKey\<close> and the effective model
  computed first as its \<^verbatim>\<open>model\<close>, and no call to \<^verbatim>\<open>getEffectiveModel\<close> is made.
\<close>

theorem openai_key_keeps_model:
  assumes "OPENAI_API_KEY (process_env proc) = Some key" and "key \<noteq> []"
  shows "createContentGeneratorConfig X proc model_arg (Some USE_OPENAI) config =
     (\<lparr>model = effectiveModel X model_arg config, apiKey = Some key, vertexai = None,
       authType = Some USE_OPENAI\<rparr>, [])"
  using assms by (simp add: createContentGeneratorConfig_def Let_def)

theorem openai_key_keeps_model_witness:
  "createContentGeneratorConfig hello_collaborators full_process (Some ''o3'')
       (Some USE_OPENAI) None =
     (\<lparr>model = ''o3'', apiKey = Some ''openai-key'', vertexai = None,
       authType = Some USE_OPENAI\<rparr>, [])"
  using openai_key_keeps_model [of full_process "''openai-key''" hello_collaborators
      "Some ''o3''" None]
  by (simp add: full_process_def effectiveModel_def lor_def)

subsection \<open>The key of a returned configuration\<close>

text \<open>
  Claim C1, as stated: every returned configuration with a key-based \<^verbatim>\<open>authType\<close> has an
  \<^verbatim>\<open>apiKey\<close>. It fails on the last \<^verbatim>\<open>return\<close> of the function, taken when the credentials of
  the selected mode are not there: in the process of the Dockerfile, where
  \<^verbatim>\<open>OPENAI_API_KEY\<close> is the empty string, the configuration returned for \<^term>\<open>USE_OPENAI\<close>
  has this \<^verbatim>\<open>authType\<close> and no \<^verbatim>\<open>apiKey\<close>.
\<close>

theorem key_based_mode_without_key_counterexample:
  "authType (fst (createContentGeneratorConfig hello_collaborators docker_process None
                    (Some USE_OPENAI) None)) = Some USE_OPENAI
   \<and> apiKey (fst (createContentGeneratorConfig hello_collaborators docker_process None
                    (Some USE_OPENAI) None)) = None"
  by (simp add: createContentGeneratorConfig_def docker_process_def Let_def)

text \<open>
  Claim C1, amended. Every returned configuration carries the \<^verbatim>\<open>authType\<close> it was asked
  for; its \<^verbatim>\<open>apiKey\<close> is either not set or a non-empty string; and it is a non-empty string
  exactly when the credentials of the selected key-based mode were present (set and not empty)
  in the environment: \<^verbatim>\<open>GEMINI_API_KEY\<close> for \<^term>\<open>USE_GEMINI\<close>; \<^verbatim>\<open>GOOGLE_API_KEY\<close>,
  \<^verbatim>\<open>GOOGLE_CLOUD_PROJECT\<close> and \<^verbatim>\<open>GOOGLE_CLOUD_LOCATION\<close> for \<^term>\<open>USE_VERTEX_AI\<close>;
  \<^verbatim>\<open>OPENAI_API_KEY\<close> for \<^term>\<open>USE_OPENAI\<close>. Otherwise the configuration has no key.
\<close>

theorem apiKey_present_iff_credentials:
  "authType (fst (createContentGeneratorConfig X proc model_arg a config)) = a
   \<and> (apiKey (fst (createContentGeneratorConfig X proc model_arg a config)) = None
      \<or> truthy (apiKey (fst (createContentGeneratorConfig X proc model_arg a config))))
   \<and> truthy (apiKey (fst (createContentGeneratorConfig X proc model_arg a config))) =
       (a = Some USE_GEMINI \<and> truthy (GEMINI_API_KEY (process_env proc))
        \<or> a = Some USE_VERTEX_AI \<and> truthy (GOOGLE_API_KEY (process_env proc))
            \<and> truthy (GOOGLE_CLOUD_PROJECT (process_env proc))
            \<and> truthy (GOOGLE_CLOUD_LOCATION (process_env proc))
        \<or> a = Some USE_OPENAI \<and> truthy (OPENAI_API_KEY (process_env proc)))"
  by (auto simp: createContentGeneratorConfig_def Let_def)

theorem apiKey_present_iff_credentials_witness:
  "truthy (apiKey (fst (createContentGeneratorConfig hello_collaborators full_process None
                          (Some USE_GEMINI) None)))
   \<and> \<not> truthy (apiKey (fst (createContentGeneratorConfig hello_collaborators docker_process
                          None (Some USE_GEMINI) None)))"
  using
    apiKey_present_iff_credentials [of hello_collaborators full_process None "Some USE_GEMINI" None]
    apiKey_present_iff_credentials [of hello_collaborators docker_process None "Some USE_GEMINI"
      None]
  by (simp add: full_process_def docker_process_def)

section \<open>The factory\<close>

text \<open>
  Claim C2. For every configuration, \<^verbatim>\<open>createContentGenerator\<close> throws exactly when the
  \<^verbatim>\<open>authType\<close> is none of the four members of the enum (it is \<^verbatim>\<open>undefined\<close>), or it is
  \<^term>\<open>USE_OPENAI\<close> and the \<^verbatim>\<open>apiKey\<close> is absent (not set, or the empty string: the test is
  the truthiness of \<^verbatim>\<open>config.apiKey\<close>); the error it throws is the one whose message is
  \<^verbatim>\<open>Error creating contentGenerator: Unsupported authType: \<close> followed by the \<^verbatim>\<open>authType\<close>; in
  every other case it returns a generator.
\<close>

theorem unsupported_authType_iff:
  "(createContentGenerator X proc config sessionId =
      Inl (Error (''Error creating contentGenerator: Unsupported authType: ''
                    @ authType_string (authType config))))
     = (authType config = None \<or> authType config = Some USE_OPENAI \<and> \<not> truthy (apiKey config))
   \<and> isl (createContentGenerator X proc config sessionId)
     = (authType config = None \<or> authType config = Some USE_OPENAI \<and> \<not> truthy (apiKey config))"
proof (cases "authType config")
  case None
  then show ?thesis by (simp add: createContentGenerator_def)
next
  case (Some a)
  then show ?thesis by (cases a) (simp_all add: createContentGenerator_def)
qed

theorem unsupported_authType_iff_witness:
  "createContentGenerator hello_collaborators docker_process
       \<lparr>model = ''o4-mini'', apiKey = None, vertexai = None, authType = Some USE_OPENAI\<rparr> None =
     Inl (Error ''Error creating contentGenerator: Unsupported authType: openai'')
   \<and> createContentGenerator hello_collaborators docker_process
       \<lparr>model = ''o4-mini'', apiKey = None, vertexai = None, authType = None\<rparr> None =
     Inl (Error ''Error creating contentGenerator: Unsupported authType: undefined'')
   \<and> \<not> isl (createContentGenerator hello_collaborators docker_process
       \<lparr>model = ''o4-mini'', apiKey = Some ''openai-key'', vertexai = None,
        authType = Some USE_OPENAI\<rparr> None)
   \<and> \<not> isl (createContentGenerator hello_collaborators docker_process
       \<lparr>model = ''gemini-2.5-pro'', apiKey = None, vertexai = None,
        authType = Some USE_GEMINI\<rparr> None)"
  using
    unsupported_authType_iff [of hello_collaborators docker_process
      "\<lparr>model = ''o4-mini'', apiKey = None, vertexai = None, authType = Some USE_OPENAI\<rparr>" None]
    unsupported_authType_iff [of hello_collaborators docker_process
      "\<lparr>model = ''o4-mini'', apiKey = None, vertexai = None, authType = None\<rparr>" None]
    unsupported_authType_iff [of hello_collaborators docker_process
      "\<lparr>model = ''o4-mini'', apiKey = Some ''openai-key'', vertexai = None,
        authType = Some USE_OPENAI\<rparr>" None]
    unsupported_authType_iff [of hello_collaborators docker_process
      "\<lparr>model = ''gemini-2.5-pro'', apiKey = None, vertexai = None,
        authType = Some USE_GEMINI\<rparr>" None]
  by simp

section \<open>The OpenAI wrapper\<close>

subsection \<open>The prompt\<close>

lemma join_loop_Suc: "join_loop sep R (Suc k) xs = R @ concat (map (\<lambda>x. sep @ x) xs)"
  by (induction xs arbitrary: R k) auto

lemma newline_joined_Cons: "newline_joined (x # xs) = x @ concat (map (\<lambda>y. newline @ y) xs)"
  by (induction xs arbitrary: x) auto

lemma join_newline: "join xs newline = newline_joined xs"
proof (cases xs)
  case Nil
  then show ?thesis by (simp add: join_def)
next
  case (Cons x rest)
  then show ?thesis by (simp add: join_def join_loop_Suc newline_joined_Cons)
qed

lemma part_prompt_spec: "part_prompt p = string_or_text_field p"
  by (cases p rule: string_or_text_field.cases) (simp_all add: part_prompt_def)

lemma item_prompt_spec: "item_prompt c = item_flattened c"
  by (cases c rule: item_flattened.cases)
     (simp_all add: item_prompt_def join_newline part_prompt_spec cong: map_cong)

lemma request_prompt_spec: "request_prompt cs = flattened cs"
  by (cases cs rule: flattened.cases)
     (simp_all add: request_prompt_def join_newline item_prompt_spec cong: map_cong)

text \<open>
  Claim C3. For every request, \<^verbatim>\<open>generateContent\<close> of the OpenAI wrapper calls the backend
  with one message, of role \<^verbatim>\<open>user\<close>, whose content is the flattening of
  \<^verbatim>\<open>request.contents\<close> as the specification words it: per item a string as it is, the
  \<^verbatim>\<open>text\<close> field of an object that has one (the empty string when the field holds no value),
  else the newline-joined texts of its \<^verbatim>\<open>parts\<close> (each a string or a \<^verbatim>\<open>text\<close> field), else
  the empty string, the items joined by newlines. In particular the contents
  \<^verbatim>\<open>[ {text: "a"}, {parts: [{text: "b"}, "c"]} ]\<close> give the prompt \<^verbatim>\<open>a\nb\nc\<close>.
\<close>

theorem generateContent_prompt_flattened:
  "generateContent (openai_wrapper X config) request =
     (case OpenAI_chat_completions_create X (apiKey config) (openai_request config request) of
        Inl e \<Rightarrow> Inl e | Inr completion \<Rightarrow> gemini_like_response completion)
   \<and> messages (openai_request config request) =
       [\<lparr>role = ''user'', content = flattened (contents request)\<rparr>]
   \<and> messages (openai_request config
        (request\<lparr>contents := ContentsArray
           [ItemObject (Value ''a'') Missing,
            ItemObject Missing (Value [PartObject (Value ''b''), PartString ''c''])]\<rparr>)) =
       [\<lparr>role = ''user'', content = ''a\<newline>b\<newline>c''\<rparr>]"
  by (simp add: openai_wrapper_def openai_request_def request_prompt_spec newline_def)

subsection \<open>The response\<close>

text \<open>
  Claim C4, as stated: for every result of the chat-completion backend, \<^verbatim>\<open>generateContent\<close>
  returns a response with exactly one candidate. It fails for a completion whose
  \<^verbatim>\<open>choices\<close> array is empty: \<^verbatim>\<open>completion.choices[0]\<close> is \<^verbatim>\<open>undefined\<close>, reading
  \<^verbatim>\<open>message\<close> from it throws a \<^verbatim>\<open>TypeError\<close>, and no response is returned.
\<close>

theorem generateContent_no_choice_counterexample:
  "generateContent (openai_wrapper no_choice_collaborators
       \<lparr>model = ''o4-mini'', apiKey = Some ''openai-key'', vertexai = None,
        authType = Some USE_OPENAI\<rparr>) hello_request =
     Inl (TypeError ''Cannot read properties of undefined (reading 'message')'')"
  by (simp add: openai_wrapper_def gemini_like_response_def no_choice_collaborators_def)

text \<open>
  Claim C4, amended. Whenever the chat-completion backend answers the wrapper's call with a
  completion that has at least one choice, \<^verbatim>\<open>generateContent\<close> returns the response with
  exactly one candidate, whose content has exactly one part, whose \<^verbatim>\<open>text\<close> is the
  \<^verbatim>\<open>message.content\<close> of the first choice, unchanged; for the message text \<^verbatim>\<open>hello\<close> the
  first part of the first candidate is \<^verbatim>\<open>hello\<close>.
\<close>

theorem generateContent_wraps_completion:
  assumes "OpenAI_chat_completions_create X (apiKey config) (openai_request config request)
             = Inr (ChatCompletion (Choice t # rest))"
  shows "generateContent (openai_wrapper X config) request =
           Inr (GenerateContentResponse [Candidate (Content [TextPart t])])"
  using assms by (simp add: openai_wrapper_def gemini_like_response_def)

theorem generateContent_wraps_completion_witness:
  "generateContent (openai_wrapper hello_collaborators
       \<lparr>model = ''o4-mini'', apiKey = Some ''openai-key'', vertexai = None,
        authType = Some USE_OPENAI\<rparr>) hello_request =
     Inr (GenerateContentResponse [Candidate (Content [TextPart (Some ''hello'')])])
   \<and> map_sum id (\<lambda>r. text_of (hd (parts_of (content_of (hd (candidates r))))))
       (generateContent (openai_wrapper hello_collaborators
          \<lparr>model = ''o4-mini'', apiKey = Some ''openai-key'', vertexai = None,
           authType = Some USE_OPENAI\<rparr>) hello_request)
     = Inr (Some ''hello'')"
proof -
  have b: "OpenAI_chat_completions_create hello_collaborators
             (apiKey \<lparr>model = ''o4-mini'', apiKey = Some ''openai-key'', vertexai = None,
                      authType = Some USE_OPENAI\<rparr>)
             (openai_request \<lparr>model = ''o4-mini'', apiKey = Some ''openai-key'',
                               vertexai = None, authType = Some USE_OPENAI\<rparr> hello_request)
           = Inr (ChatCompletion (Choice (Some ''hello'') # []))"
    by (simp add: hello_collaborators_def)
  show ?thesis using generateContent_wraps_completion [OF b] by simp
qed

subsection \<open>The operations that are not implemented\<close>

text \<open>
  Claim C5. For every configuration from which the factory builds the OpenAI wrapper
  (\<^term>\<open>USE_OPENAI\<close> with a key) and for every request, each of \<^verbatim>\<open>generateContentStream\<close>,
  \<^verbatim>\<open>countTokens\<close> and \<^verbatim>\<open>embedContent\<close> of the generator returned throws its
  "not implemented" error, whatever the request and whatever the collaborators do.
\<close>

theorem openai_operations_not_implemented:
  assumes "authType config = Some USE_OPENAI" and "truthy (apiKey config)"
  shows "\<exists>g. createContentGenerator X proc config sessionId = Inr g
     \<and> generateContentStream g request1 = Inl (Error ''OpenAI streaming not implemented'')
     \<and> countTokens g request2 = Inl (Error ''OpenAI token counting not implemented'')
     \<and> embedContent g request3 = Inl (Error ''OpenAI embedding not implemented'')"
  using assms by (simp add: createContentGenerator_def openai_wrapper_def)

theorem openai_operations_not_implemented_witness:
  "\<exists>g. createContentGenerator hello_collaborators full_process
          \<lparr>model = ''o4-mini'', apiKey = Some ''openai-key'', vertexai = None,
           authType = Some USE_OPENAI\<rparr> None = Inr g
     \<and> generateContentStream g hello_request = Inl (Error ''OpenAI streaming not implemented'')
     \<and> countTokens g hello_request = Inl (Error ''OpenAI token counting not implemented'')
     \<and> embedContent g hello_request = Inl (Error ''OpenAI embedding not implemented'')"
  using openai_operations_not_implemented [of
      "\<lparr>model = ''o4-mini'', apiKey = Some ''openai-key'', vertexai = None,
        authType = Some USE_OPENAI\<rparr>" hello_collaborators full_process None
      hello_request hello_request hello_request]
  by simp

end
